theory Spec2Isabelle
  imports Main "HOL-Library.Word"
begin

section \<open>Elastic IP service: data model\<close>

text \<open>
  The development embeds \<^verbatim>\<open>pkg/cloud/services/network/eip/eips.go\<close> and the
  \<^verbatim>\<open>Service\<close> struct it is a method set of. Go pointers (\<^verbatim>\<open>*string\<close>,
  \<^verbatim>\<open>*int64\<close>, pointers to SDK outputs) are options, \<^verbatim>\<open>nil\<close> being
  \<open>None\<close>; dereferencing \<^verbatim>\<open>nil\<close> is the result \<open>Panic\<close>. Slices are lists
  (a \<^verbatim>\<open>nil\<close> slice is the empty list) whose elements are taken to be non-nil
  structs, as the SDK produces them. The calls to \<^verbatim>\<open>record.Warnf\<close>,
  \<^verbatim>\<open>record.Eventf\<close>, \<^verbatim>\<open>s.Info\<close> and \<^verbatim>\<open>s.Debug\<close> only emit events
  and log lines and are left out, except for the pointer dereferences among their
  arguments, which can panic and are kept.
\<close>

subsection \<open>Errors\<close>

text \<open>
  Modelled from the spec: the package \<^verbatim>\<open>awserrors\<close> is not among the sources. The
  spec names three provider conditions the core recognises: an auth failure, an address
  "in use" and an "association not found"; every other provider code is \<open>OtherCode\<close>.
\<close>

datatype code = AuthFailure | InUseIPAddress | AssociationIDNotFound | OtherCode string

text \<open>
  Modelled from the spec: the type \<^verbatim>\<open>infrav1.PublicIpv4PoolFallbackOrder\<close> is not
  among the sources. The spec describes the fallback policy as an enumerated value,
  \<^verbatim>\<open>NONE\<close> or an "allow fallback" default.
\<close>

datatype PublicIpv4PoolFallbackOrder =
  PublicIpv4PoolFallbackOrderNone | PublicIpv4PoolFallbackOrderAmazonPool

text \<open>
  A Go \<^verbatim>\<open>error\<close> value: an error of the provider carrying a code
  (\<^verbatim>\<open>awserr.Error\<close>), an error made by \<^verbatim>\<open>errors.New\<close>, \<^verbatim>\<open>errors.Errorf\<close>
  or \<^verbatim>\<open>fmt.Errorf\<close> (the format string and its arguments), or an error wrapped by
  \<^verbatim>\<open>errors.Wrap\<close> or \<^verbatim>\<open>errors.Wrapf\<close>.
\<close>

datatype error =
    AwsError code string
  | Errorf string "arg list"
  | Wrapf error string "arg list"
and arg =
    ArgString string
  | ArgPtr "string option"
  | ArgInt int
  | ArgOrder PublicIpv4PoolFallbackOrder
  | ArgError error

text \<open>\<^verbatim>\<open>errors.Cause\<close>: the innermost error under the wrappers.\<close>

fun Cause :: "error \<Rightarrow> error" where
  "Cause (Wrapf e m as) = Cause e"
| "Cause (AwsError c m) = AwsError c m"
| "Cause (Errorf m as) = Errorf m as"

text \<open>
  Modelled from the spec: \<^verbatim>\<open>awserrors.Code\<close> is not among the sources. It gives the
  provider code of an error and whether the error has one; the code of an error without
  one is the empty string.
\<close>

fun Code :: "error \<Rightarrow> code \<times> bool" where
  "Code (AwsError c m) = (c, True)"
| "Code (Errorf m as) = (OtherCode [], False)"
| "Code (Wrapf e m as) = (OtherCode [], False)"

text \<open>
  The result of a Go function that returns \<^verbatim>\<open>error\<close> or \<^verbatim>\<open>(T, error)\<close>: the
  value with a \<^verbatim>\<open>nil\<close> error, the error (the code returns the zero value beside
  it), or a run-time panic.
\<close>

datatype 'a result = Ok 'a | Err error | Panic

subsection \<open>SDK and API types\<close>

text \<open>\<^verbatim>\<open>aws.StringValue\<close> and \<^verbatim>\<open>aws.Int64Value\<close> read a pointer, \<^verbatim>\<open>nil\<close>
  giving the zero value.\<close>

definition StringValue :: "string option \<Rightarrow> string" where
  "StringValue p = (case p of None \<Rightarrow> [] | Some v \<Rightarrow> v)"

definition Int64Value :: "64 word option \<Rightarrow> 64 word" where
  "Int64Value p = (case p of None \<Rightarrow> 0 | Some v \<Rightarrow> v)"

text \<open>
  Modelled from the spec: the package \<^verbatim>\<open>filter\<close> is not among the sources. The two
  filters the core builds are the cluster identity and the role tag.
\<close>

datatype Filter = Cluster string | ProviderRole string

record Address =
  AllocationId :: "string option"
  AssociationId :: "string option"
  PublicIp :: "string option"

record DescribeAddressesOutput =
  Addresses :: "Address list"

record Tag =
  Key :: "string option"
  Value :: "string option"

record TagSpecification =
  ResourceType :: "string option"
  Tags :: "Tag list"

record AllocateAddressInput =
  Domain :: "string option"
  TagSpecifications :: "TagSpecification list"
  alloc_PublicIpv4Pool :: "string option"

record AllocateAddressOutput =
  out_AllocationId :: "string option"

record PublicIpv4Pool =
  TotalAvailableAddressCount :: "64 word option"

record DescribePublicIpv4PoolsOutput =
  PublicIpv4Pools :: "PublicIpv4Pool list"

definition ResourceTypeElasticIp :: string where
  "ResourceTypeElasticIp = ''elastic-ip''"

text \<open>
  Modelled from the spec: \<^verbatim>\<open>infrav1.ResourceLifecycle\<close>, \<^verbatim>\<open>infrav1.BuildParams\<close>
  and \<^verbatim>\<open>infrav1.VPCSpec\<close> are not among the sources; they have the fields the code
  reads and writes.
\<close>

datatype ResourceLifecycle = ResourceLifecycleOwned | ResourceLifecycleShared

record BuildParams =
  bp_ClusterName :: string
  bp_Lifecycle :: ResourceLifecycle
  bp_Name :: "string option"
  bp_Role :: "string option"
  bp_Additional :: "(string \<times> string) list"

record VPCSpec =
  vpc_PublicIpv4Pool :: "string option"
  PublicIpv4PoolFallBackOrder :: "PublicIpv4PoolFallbackOrder option"

definition Equal :: "PublicIpv4PoolFallbackOrder \<Rightarrow> PublicIpv4PoolFallbackOrder \<Rightarrow> bool" where
  "Equal r e = (r = e)"

subsection \<open>The provider client and the service\<close>

text \<open>
  The provider is the interface \<^verbatim>\<open>ec2iface.EC2API\<close>: any implementation, with a
  state \<open>'w\<close> of its own that every call may read and change. Each method takes the
  field of its input struct that the core sets and returns what the core reads of the
  Go results (the outputs of disassociate and release are discarded by the code).
\<close>

record 'w EC2API =
  DescribeAddressesWithContext ::
    "Filter list \<Rightarrow> 'w \<Rightarrow> (DescribeAddressesOutput option \<times> error option) \<times> 'w"
  AllocateAddressWithContext ::
    "AllocateAddressInput \<Rightarrow> 'w \<Rightarrow> (AllocateAddressOutput option \<times> error option) \<times> 'w"
  DisassociateAddressWithContext :: "string option \<Rightarrow> 'w \<Rightarrow> error option \<times> 'w"
  ReleaseAddressWithContext :: "string option \<Rightarrow> 'w \<Rightarrow> error option \<times> 'w"
  DescribePublicIpv4Pools ::
    "string option list \<Rightarrow> 'w \<Rightarrow> (DescribePublicIpv4PoolsOutput option \<times> error option) \<times> 'w"

text \<open>The \<^verbatim>\<open>Service\<close> struct, without its logger and its event target.\<close>

record 'w Service =
  EC2Client :: "'w EC2API"
  additionalTags :: "(string \<times> string) list"
  vpc :: "VPCSpec option"
  name :: string

definition VPC :: "'w Service \<Rightarrow> VPCSpec option" where
  "VPC s = vpc s"

definition Name :: "'w Service \<Rightarrow> string" where
  "Name s = name s"

definition AdditionalTags :: "'w Service \<Rightarrow> (string \<times> string) list" where
  "AdditionalTags s = additionalTags s"

text \<open>
  The packages \<^verbatim>\<open>wait\<close> and \<^verbatim>\<open>tags\<close> are not among the sources. What the code
  takes from them without looking inside is a parameter of the model: the backoff that
  \<^verbatim>\<open>wait.NewBackoff\<close> returns, of which only the number of attempts matters, and the
  tag builder \<^verbatim>\<open>tags.BuildParamsToTagSpecification\<close>.
\<close>

record Backoff =
  Steps :: nat

record env =
  NewBackoff :: Backoff
  BuildParamsToTagSpecification :: "string \<Rightarrow> BuildParams \<Rightarrow> TagSpecification"

text \<open>
  The state threaded through the service: the requests sent to the provider so far, in
  order (an allocation request with the provider's answer to it), and the provider's own
  state.
\<close>

datatype call =
    CallDescribeAddresses "Filter list"
  | CallAllocateAddress AllocateAddressInput "AllocateAddressOutput option \<times> error option"
  | CallDisassociateAddress "string option"
  | CallReleaseAddress "string option"
  | CallDescribePublicIpv4Pools "string option list"

record 'w st =
  calls :: "call list"
  world :: 'w

definition callDescribeAddresses ::
  "'w Service \<Rightarrow> Filter list \<Rightarrow> 'w st
    \<Rightarrow> (DescribeAddressesOutput option \<times> error option) \<times> 'w st" where
  "callDescribeAddresses s fs st =
     (case DescribeAddressesWithContext (EC2Client s) fs (world st) of
        (r, w) \<Rightarrow> (r, \<lparr>calls = calls st @ [CallDescribeAddresses fs], world = w\<rparr>))"

definition callAllocateAddress ::
  "'w Service \<Rightarrow> AllocateAddressInput \<Rightarrow> 'w st
    \<Rightarrow> (AllocateAddressOutput option \<times> error option) \<times> 'w st" where
  "callAllocateAddress s inp st =
     (case AllocateAddressWithContext (EC2Client s) inp (world st) of
        (r, w) \<Rightarrow> (r, \<lparr>calls = calls st @ [CallAllocateAddress inp r], world = w\<rparr>))"

definition callDisassociateAddress ::
  "'w Service \<Rightarrow> string option \<Rightarrow> 'w st \<Rightarrow> error option \<times> 'w st" where
  "callDisassociateAddress s a st =
     (case DisassociateAddressWithContext (EC2Client s) a (world st) of
        (r, w) \<Rightarrow> (r, \<lparr>calls = calls st @ [CallDisassociateAddress a], world = w\<rparr>))"

definition callReleaseAddress ::
  "'w Service \<Rightarrow> string option \<Rightarrow> 'w st \<Rightarrow> error option \<times> 'w st" where
  "callReleaseAddress s a st =
     (case ReleaseAddressWithContext (EC2Client s) a (world st) of
        (r, w) \<Rightarrow> (r, \<lparr>calls = calls st @ [CallReleaseAddress a], world = w\<rparr>))"

definition callDescribePublicIpv4Pools ::
  "'w Service \<Rightarrow> string option list \<Rightarrow> 'w st
    \<Rightarrow> (DescribePublicIpv4PoolsOutput option \<times> error option) \<times> 'w st" where
  "callDescribePublicIpv4Pools s ps st =
     (case DescribePublicIpv4Pools (EC2Client s) ps (world st) of
        (r, w) \<Rightarrow> (r, \<lparr>calls = calls st @ [CallDescribePublicIpv4Pools ps], world = w\<rparr>))"

section \<open>Allocation\<close>

text \<open>\<^verbatim>\<open>getEIPTagParams\<close>: the tags of an address of the given role.\<close>

definition getEIPTagParams :: "'w Service \<Rightarrow> string \<Rightarrow> BuildParams" where
  "getEIPTagParams s role =
     (let nm = Name s @ ''-eip-'' @ role
      in \<lparr>bp_ClusterName = Name s, bp_Lifecycle = ResourceLifecycleOwned,
          bp_Name = Some nm, bp_Role = Some role, bp_Additional = AdditionalTags s\<rparr>)"

text \<open>
  \<^verbatim>\<open>publicIpv4PoolHasFreeIPs\<close>: whether the configured pool has \<open>want\<close> free
  addresses. The comparison is that of \<^verbatim>\<open>int64\<close>, signed.
\<close>

definition publicIpv4PoolHasFreeIPs ::
  "'w Service \<Rightarrow> 64 word \<Rightarrow> 'w st \<Rightarrow> bool result \<times> 'w st" where
  "publicIpv4PoolHasFreeIPs s want st =
     (case VPC s of
        None \<Rightarrow> (Panic, st)
      | Some v \<Rightarrow>
         (case callDescribePublicIpv4Pools s [vpc_PublicIpv4Pool v] st of
            (r, st1) \<Rightarrow>
              (case snd r of
                 Some err \<Rightarrow>
                   (Err (Wrapf err ''failed to describe Public IPv4 Pool %v: %q''
                          [ArgPtr (vpc_PublicIpv4Pool v), ArgError err]), st1)
               | None \<Rightarrow>
                  (case fst r of
                     None \<Rightarrow> (Panic, st1)
                   | Some pools \<Rightarrow>
                      (case PublicIpv4Pools pools of
                         [p] \<Rightarrow>
                           (let freeIPs = Int64Value (TotalAvailableAddressCount p)
                            in if sint freeIPs < sint want
                               then (Err (Errorf
                                       ''the pool %v does not have requested size. want %d, got %d''
                                       [ArgPtr (vpc_PublicIpv4Pool v), ArgInt (sint want),
                                        ArgInt (sint freeIPs)]), st1)
                               else (Ok True, st1))
                       | ps \<Rightarrow>
                           (Err (Errorf
                                  ''unexpected number of Public IPv4 Pools. want 1, got %d''
                                  [ArgInt (int (length ps))]), st1))))))"

text \<open>
  \<^verbatim>\<open>setByoPublicIpv4\<close>: sets the pool of the allocation request. The Go function
  writes into the request it is given; here it returns the request.
\<close>

definition setByoPublicIpv4 ::
  "'w Service \<Rightarrow> AllocateAddressInput \<Rightarrow> 'w st \<Rightarrow> AllocateAddressInput result \<times> 'w st" where
  "setByoPublicIpv4 s alloc st =
     (case VPC s of
        None \<Rightarrow> (Panic, st)
      | Some v \<Rightarrow>
         (if vpc_PublicIpv4Pool v = None then (Ok alloc, st)
          else
            (case publicIpv4PoolHasFreeIPs s 1 st of
               (r, st1) \<Rightarrow>
                 (case r of
                    Panic \<Rightarrow> (Panic, st1)
                  | Err err \<Rightarrow>
                      (Err (Errorf ''failed to allocate Elastic IP from PublicIpv4 Pool'' []), st1)
                  | Ok ok \<Rightarrow>
                      (if ok
                       then (Ok (alloc\<lparr>alloc_PublicIpv4Pool := vpc_PublicIpv4Pool v\<rparr>), st1)
                       else
                         (case PublicIpv4PoolFallBackOrder v of
                            None \<Rightarrow> (Ok alloc, st1)
                          | Some order \<Rightarrow>
                              (if Equal order PublicIpv4PoolFallbackOrderNone
                               then (Err (Errorf
                                 ''failed to allocate Elastic IP from PublicIpv4 Pool and use fallback with strategy %s''
                                 [ArgOrder order]), st1)
                               else (Ok alloc, st1))))))))"

text \<open>\<^verbatim>\<open>allocateAddress\<close>: one new address of the given role.\<close>

definition allocateAddress ::
  "env \<Rightarrow> 'w Service \<Rightarrow> string \<Rightarrow> 'w st \<Rightarrow> string result \<times> 'w st" where
  "allocateAddress P s role st =
     (let tagSpecifications =
            BuildParamsToTagSpecification P ResourceTypeElasticIp (getEIPTagParams s role);
          allocInput = \<lparr>Domain = Some ''vpc'', TagSpecifications = [tagSpecifications],
                        alloc_PublicIpv4Pool = None\<rparr>
      in case setByoPublicIpv4 s allocInput st of
           (r, st1) \<Rightarrow>
             (case r of
                Panic \<Rightarrow> (Panic, st1)
              | Err err \<Rightarrow> (Err err, st1)
              | Ok inp \<Rightarrow>
                 (case callAllocateAddress s inp st1 of
                    (r2, st2) \<Rightarrow>
                      (case snd r2 of
                         Some err \<Rightarrow> (Err (Wrapf err ''failed to allocate Elastic IP'' []), st2)
                       | None \<Rightarrow>
                          (case fst r2 of
                             None \<Rightarrow> (Panic, st2)
                           | Some out \<Rightarrow> (Ok (StringValue (out_AllocationId out)), st2))))))"

section \<open>Get or allocate\<close>

text \<open>\<^verbatim>\<open>describeAddresses\<close>: the addresses of the cluster, of one role when a role
  is given.\<close>

definition describeAddresses ::
  "'w Service \<Rightarrow> string \<Rightarrow> 'w st
    \<Rightarrow> (DescribeAddressesOutput option \<times> error option) \<times> 'w st" where
  "describeAddresses s role st =
     (let x = [Cluster (Name s)];
          x = (if role \<noteq> [] then x @ [ProviderRole role] else x)
      in callDescribeAddresses s x st)"

text \<open>The first loop of \<^verbatim>\<open>GetOrAllocateAddresses\<close>: the addresses without an
  association are appended to \<^verbatim>\<open>eips\<close>, in the order of the listing.\<close>

fun reuseLoop :: "Address list \<Rightarrow> string list \<Rightarrow> string list" where
  "reuseLoop [] eips = eips"
| "reuseLoop (address # rest) eips =
     reuseLoop rest
       (if AssociationId address = None
        then eips @ [StringValue (AllocationId address)] else eips)"

text \<open>The second loop, \<^verbatim>\<open>for len(eips) < num\<close>: one allocation per round, the
  first failure ending the call. \<^verbatim>\<open>num\<close> is a Go \<^verbatim>\<open>int\<close>; it is only
  compared, so an integer stands for it.\<close>

function allocLoop ::
  "env \<Rightarrow> 'w Service \<Rightarrow> int \<Rightarrow> string \<Rightarrow> string list \<Rightarrow> 'w st
    \<Rightarrow> string list result \<times> 'w st" where
  "allocLoop P s num role eips st =
     (if int (length eips) < num
      then (case allocateAddress P s role st of
              (r, st1) \<Rightarrow>
                (case r of
                   Panic \<Rightarrow> (Panic, st1)
                 | Err err \<Rightarrow> (Err err, st1)
                 | Ok ip \<Rightarrow> allocLoop P s num role (eips @ [ip]) st1))
      else (Ok eips, st))"
  by pat_completeness auto
termination
  by (relation "measure (\<lambda>(P, s, num, role, eips, st). nat (num - int (length eips)))") auto

definition GetOrAllocateAddresses ::
  "env \<Rightarrow> 'w Service \<Rightarrow> int \<Rightarrow> string \<Rightarrow> 'w st \<Rightarrow> string list result \<times> 'w st" where
  "GetOrAllocateAddresses P s num role st =
     (case describeAddresses s role st of
        (r, st1) \<Rightarrow>
          (case snd r of
             Some err \<Rightarrow> (Err (Wrapf err ''failed to query addresses'' []), st1)
           | None \<Rightarrow>
              (case fst r of
                 None \<Rightarrow> (Panic, st1)
               | Some out \<Rightarrow> allocLoop P s num role (reuseLoop (Addresses out) []) st1)))"

section \<open>The retrying waiter\<close>

text \<open>
  Modelled from the spec: \<^verbatim>\<open>wait.WaitForWithRetryable\<close> is not among the sources.
  The spec gives it as \<^verbatim>\<open>retry(backoffPolicy, operation, retryableErrorCodes...)\<close>
  returning success or a terminal error: the operation is attempted a bounded number of
  times (the steps of the backoff); an attempt that reports it is done ends the wait with
  success; an error whose provider code is one of the retryable codes leads to the next
  attempt, every other error is terminal at once; and when the attempts are exhausted the
  wait fails with the last retryable error, or with a timeout error when there is none.
  An attempt that is neither done nor failed leads to the next attempt. The pauses
  between attempts are not modelled.
\<close>

definition ErrWaitTimeout :: error where
  "ErrWaitTimeout = Errorf ''timed out waiting for the condition'' []"

fun waitLoop ::
  "nat \<Rightarrow> ('s \<Rightarrow> bool result \<times> 's) \<Rightarrow> code list \<Rightarrow> error option \<Rightarrow> 's
    \<Rightarrow> unit result \<times> 's" where
  "waitLoop 0 condition retryableErrors errToReturn st =
     (case errToReturn of
        Some err \<Rightarrow> (Err err, st)
      | None \<Rightarrow> (Err ErrWaitTimeout, st))"
| "waitLoop (Suc n) condition retryableErrors errToReturn st =
     (case condition st of
        (r, st1) \<Rightarrow>
          (case r of
             Panic \<Rightarrow> (Panic, st1)
           | Ok ok \<Rightarrow>
               (if ok then (Ok (), st1)
                else waitLoop n condition retryableErrors None st1)
           | Err err \<Rightarrow>
               (case Code (Cause err) of
                  (c, ok) \<Rightarrow>
                    (if ok \<and> c \<in> set retryableErrors
                     then waitLoop n condition retryableErrors (Some err) st1
                     else (Err err, st1)))))"

definition WaitForWithRetryable ::
  "Backoff \<Rightarrow> ('s \<Rightarrow> bool result \<times> 's) \<Rightarrow> code list \<Rightarrow> 's \<Rightarrow> unit result \<times> 's" where
  "WaitForWithRetryable backoff condition retryableErrors st =
     waitLoop (Steps backoff) condition retryableErrors None st"

section \<open>Disassociation and release\<close>

text \<open>The condition function that \<^verbatim>\<open>disassociateAddress\<close> hands to the waiter.\<close>

definition disassociateCond ::
  "'w Service \<Rightarrow> Address \<Rightarrow> 'w st \<Rightarrow> bool result \<times> 'w st" where
  "disassociateCond s ip st =
     (case callDisassociateAddress s (AssociationId ip) st of
        (r, st1) \<Rightarrow>
          (case r of
             Some err \<Rightarrow>
               (case Code (Cause err) of
                  (cause, ok) \<Rightarrow>
                    (if cause \<noteq> AssociationIDNotFound then (Err err, st1)
                     else (Ok True, st1)))
           | None \<Rightarrow> (Ok True, st1)))"

definition disassociateAddress ::
  "env \<Rightarrow> 'w Service \<Rightarrow> Address \<Rightarrow> 'w st \<Rightarrow> unit result \<times> 'w st" where
  "disassociateAddress P s ip st =
     (case WaitForWithRetryable (NewBackoff P) (disassociateCond s ip) [AuthFailure] st of
        (r, st1) \<Rightarrow>
          (case r of
             Panic \<Rightarrow> (Panic, st1)
           | Err err \<Rightarrow>
               (case AllocationId ip of
                  None \<Rightarrow> (Panic, st1)
                | Some a \<Rightarrow>
                    (Err (Wrapf err ''failed to disassociate Elastic IP %q'' [ArgString a]), st1))
           | Ok u \<Rightarrow> (Ok (), st1)))"

text \<open>The condition function that \<^verbatim>\<open>releaseAddress\<close> hands to the waiter: one
  release request and, when it fails on an address that had an association, a
  disassociation in between. Both branches after the disassociation return the error
  of the release.\<close>

definition releaseCond ::
  "env \<Rightarrow> 'w Service \<Rightarrow> Address \<Rightarrow> 'w st \<Rightarrow> bool result \<times> 'w st" where
  "releaseCond P s ip st =
     (case callReleaseAddress s (AllocationId ip) st of
        (r, st1) \<Rightarrow>
          (case r of
             Some err \<Rightarrow>
               (if AssociationId ip \<noteq> None
                then (case disassociateAddress P s ip st1 of
                        (d, st2) \<Rightarrow>
                          (case d of
                             Panic \<Rightarrow> (Panic, st2)
                           | Err derr \<Rightarrow> (Err err, st2)
                           | Ok u \<Rightarrow> (Err err, st2)))
                else (Err err, st1))
           | None \<Rightarrow> (Ok True, st1)))"

text \<open>\<^verbatim>\<open>releaseAddress\<close>: gives one address back to the provider.\<close>

definition releaseAddress ::
  "env \<Rightarrow> 'w Service \<Rightarrow> Address \<Rightarrow> 'w st \<Rightarrow> unit result \<times> 'w st" where
  "releaseAddress P s ip st =
     (case (if AssociationId ip \<noteq> None
            then (case callDisassociateAddress s (AssociationId ip) st of
                    (r, st1) \<Rightarrow>
                      (case r of
                         Some err \<Rightarrow>
                           (case (AllocationId ip, PublicIp ip, AssociationId ip) of
                              (Some al, Some pub, Some assoc) \<Rightarrow>
                                (Err (Errorf
                                  ''failed to disassociate Elastic IP %q with allocation ID %q: Still associated with association ID %q''
                                  [ArgString pub, ArgString al, ArgString assoc]), st1)
                            | other \<Rightarrow> (Panic, st1))
                       | None \<Rightarrow> (Ok (), st1)))
            else (Ok (), st)) of
        (r0, st1) \<Rightarrow>
          (case r0 of
             Panic \<Rightarrow> (Panic, st1)
           | Err err \<Rightarrow> (Err err, st1)
           | Ok u0 \<Rightarrow>
              (case WaitForWithRetryable (NewBackoff P) (releaseCond P s ip)
                      [AuthFailure, InUseIPAddress] st1 of
                 (r, st2) \<Rightarrow>
                   (case r of
                      Panic \<Rightarrow> (Panic, st2)
                    | Err err \<Rightarrow>
                        (case AllocationId ip of
                           None \<Rightarrow> (Panic, st2)
                         | Some al \<Rightarrow>
                             (Err (Wrapf err ''failed to release ElasticIP %q'' [ArgString al]),
                              st2))
                    | Ok u \<Rightarrow>
                        (case (PublicIp ip, AllocationId ip) of
                           (Some pub, Some al) \<Rightarrow> (Ok (), st2)
                         | other \<Rightarrow> (Panic, st2))))))"

text \<open>The loop of \<^verbatim>\<open>releaseAddresses\<close> over the addresses of the listing.\<close>

fun releaseLoop ::
  "env \<Rightarrow> 'w Service \<Rightarrow> Address list \<Rightarrow> 'w st \<Rightarrow> unit result \<times> 'w st" where
  "releaseLoop P s [] st = (Ok (), st)"
| "releaseLoop P s (ip # rest) st =
     (case releaseAddress P s ip st of
        (r, st1) \<Rightarrow>
          (case r of
             Panic \<Rightarrow> (Panic, st1)
           | Err err \<Rightarrow> (Err err, st1)
           | Ok u \<Rightarrow> releaseLoop P s rest st1))"

definition releaseAddresses ::
  "env \<Rightarrow> 'w Service \<Rightarrow> Filter list \<Rightarrow> 'w st \<Rightarrow> unit result \<times> 'w st" where
  "releaseAddresses P s filters st =
     (case callDescribeAddresses s filters st of
        (r, st1) \<Rightarrow>
          (case snd r of
             Some err \<Rightarrow>
               (Err (Wrapf err ''failed to describe elastic IPs %q'' [ArgError err]), st1)
           | None \<Rightarrow>
              (case fst r of
                 None \<Rightarrow> (Ok (), st1)
               | Some out \<Rightarrow> releaseLoop P s (Addresses out) st1)))"

definition ReleaseAddresses :: "env \<Rightarrow> 'w Service \<Rightarrow> 'w st \<Rightarrow> unit result \<times> 'w st" where
  "ReleaseAddresses P s st = releaseAddresses P s [Cluster (Name s)] st"

definition ReleaseAddressByRole ::
  "env \<Rightarrow> 'w Service \<Rightarrow> string \<Rightarrow> 'w st \<Rightarrow> unit result \<times> 'w st" where
  "ReleaseAddressByRole P s role st =
     (let clusterFilter = [Cluster (Name s)];
          clusterFilter = clusterFilter @ [ProviderRole role]
      in releaseAddresses P s clusterFilter st)"

section \<open>Observing the requests\<close>

text \<open>The requests a run has added to the log, those of them that allocate, and the
  identities that the provider minted in answer to them.\<close>

definition newCalls :: "'w st \<Rightarrow> 'w st \<Rightarrow> call list" where
  "newCalls st st' = drop (length (calls st)) (calls st')"

fun isAllocate :: "call \<Rightarrow> bool" where
  "isAllocate (CallAllocateAddress inp r) = True"
| "isAllocate c = False"

fun minted :: "call list \<Rightarrow> string list" where
  "minted [] = []"
| "minted (CallAllocateAddress inp (Some out, None) # cs) =
     StringValue (out_AllocationId out) # minted cs"
| "minted (c # cs) = minted cs"



fun isRelease :: "call \<Rightarrow> bool" where
  "isRelease (CallReleaseAddress a) = True"
| "isRelease c = False"

text \<open>Every release request that is followed by another request is followed by a
  disassociate request for the association \<open>a\<close>.\<close>

fun disassociatesBetween :: "string option \<Rightarrow> call list \<Rightarrow> bool" where
  "disassociatesBetween a (CallReleaseAddress x # c # cs) =
     (c = CallDisassociateAddress a \<and> disassociatesBetween a (c # cs))"
| "disassociatesBetween a (c # cs) = disassociatesBetween a cs"
| "disassociatesBetween a [] = True"

text \<open>The addresses that the provider lists for a filter in a state, as the bulk
  release reads them: none when the listing fails or has no output.\<close>

definition listed :: "'w Service \<Rightarrow> Filter list \<Rightarrow> 'w st \<Rightarrow> Address list" where
  "listed s fs st =
     (case fst (DescribeAddressesWithContext (EC2Client s) fs (world st)) of
        (out, err) \<Rightarrow>
          (case err of
             Some e \<Rightarrow> []
           | None \<Rightarrow> (case out of None \<Rightarrow> [] | Some out \<Rightarrow> Addresses out)))"

text \<open>Whether the waiter of \<^verbatim>\<open>releaseAddress\<close> retries after an error: its code is
  one of the two codes that \<^verbatim>\<open>releaseAddress\<close> passes to the waiter.\<close>

definition releaseRetryable :: "error \<Rightarrow> bool" where
  "releaseRetryable err =
     (case Code (Cause err) of
        (c, ok) \<Rightarrow> ok \<and> (c = AuthFailure \<or> c = InUseIPAddress))"

section \<open>A scripted provider\<close>

text \<open>
  A client in the manner of a test double, for running the service on concrete inputs:
  it answers the two listings with fixed responses, mints the allocation identities
  \<^verbatim>\<open>eipalloc-\<close>, \<^verbatim>\<open>eipalloc-i\<close>, \<^verbatim>\<open>eipalloc-ii\<close>, ... and answers the
  disassociate and release requests from two scripts, one response per request, with
  success once a script is used up.
\<close>

record fake =
  f_addresses :: "DescribeAddressesOutput option \<times> error option"
  f_pools :: "DescribePublicIpv4PoolsOutput option \<times> error option"
  f_minted :: nat
  f_disassociate :: "error option list"
  f_release :: "error option list"

definition fakeEC2 :: "fake EC2API" where
  "fakeEC2 =
     \<lparr>DescribeAddressesWithContext = (\<lambda>fs w. (f_addresses w, w)),
      AllocateAddressWithContext =
        (\<lambda>inp w. ((Some \<lparr>out_AllocationId = Some (''eipalloc-'' @ replicate (f_minted w) CHR ''i'')\<rparr>,
                    None), w\<lparr>f_minted := Suc (f_minted w)\<rparr>)),
      DisassociateAddressWithContext =
        (\<lambda>a w. case f_disassociate w of
                  [] \<Rightarrow> (None, w)
                | r # rs \<Rightarrow> (r, w\<lparr>f_disassociate := rs\<rparr>)),
      ReleaseAddressWithContext =
        (\<lambda>a w. case f_release w of
                  [] \<Rightarrow> (None, w)
                | r # rs \<Rightarrow> (r, w\<lparr>f_release := rs\<rparr>)),
      DescribePublicIpv4Pools = (\<lambda>ps w. (f_pools w, w))\<rparr>"

definition fakeService ::
  "string option \<Rightarrow> PublicIpv4PoolFallbackOrder option \<Rightarrow> fake Service" where
  "fakeService pool order =
     \<lparr>EC2Client = fakeEC2, additionalTags = [],
      vpc = Some \<lparr>vpc_PublicIpv4Pool = pool, PublicIpv4PoolFallBackOrder = order\<rparr>,
      name = ''c1''\<rparr>"

definition fakeEnv :: env where
  "fakeEnv =
     \<lparr>NewBackoff = \<lparr>Steps = 3\<rparr>,
      BuildParamsToTagSpecification =
        (\<lambda>rt bp. \<lparr>ResourceType = Some rt,
                   Tags = [\<lparr>Key = Some ''Name'', Value = bp_Name bp\<rparr>,
                           \<lparr>Key = Some ''role'', Value = bp_Role bp\<rparr>]\<rparr>)\<rparr>"

definition fakeWorld ::
  "Address list \<Rightarrow> 64 word \<Rightarrow> error option list \<Rightarrow> error option list \<Rightarrow> fake" where
  "fakeWorld addrs free dis rel =
     \<lparr>f_addresses = (Some \<lparr>Addresses = addrs\<rparr>, None),
      f_pools = (Some \<lparr>PublicIpv4Pools = [\<lparr>TotalAvailableAddressCount = Some free\<rparr>]\<rparr>, None),
      f_minted = 0, f_disassociate = dis, f_release = rel\<rparr>"

definition fakeStart ::
  "Address list \<Rightarrow> 64 word \<Rightarrow> error option list \<Rightarrow> error option list \<Rightarrow> fake st" where
  "fakeStart addrs free dis rel = \<lparr>calls = [], world = fakeWorld addrs free dis rel\<rparr>"

definition addr :: "string \<Rightarrow> string option \<Rightarrow> Address" where
  "addr al assoc = \<lparr>AllocationId = Some al, AssociationId = assoc, PublicIp = Some ''192.0.2.1''\<rparr>"

text \<open>The same service with a provider that answers every release request with
  "in use".\<close>

definition busyService :: "fake Service" where
  "busyService =
     (fakeService None None)
       \<lparr>EC2Client :=
          fakeEC2\<lparr>ReleaseAddressWithContext :=
                    (\<lambda>a w. (Some (AwsError InUseIPAddress ''in use''), w))\<rparr>\<rparr>"

section \<open>Properties\<close>

lemmas call_defs = callDescribeAddresses_def callAllocateAddress_def callDisassociateAddress_def
  callReleaseAddress_def callDescribePublicIpv4Pools_def

lemmas fake_defs = fakeEC2_def fakeService_def fakeEnv_def fakeWorld_def fakeStart_def addr_def

lemmas run_defs = releaseAddress_def releaseCond_def disassociateAddress_def
  disassociateCond_def WaitForWithRetryable_def call_defs fake_defs eval_nat_numeral

subsection \<open>Pool policy\<close>

text \<open>
  C5. When a pool of the user's own is configured, the provider reports it with fewer
  than one available address and the fallback order is \<^verbatim>\<open>none\<close>, the allocation
  fails with an error, and the only request sent is the description of the pool: no
  allocation request is issued, so the default pool is not used.
\<close>

theorem allocate_pool_exhausted_fallback_none:
  assumes "VPC s = Some v" and "vpc_PublicIpv4Pool v = Some pool"
    and "DescribePublicIpv4Pools (EC2Client s) [Some pool] (world st) = ((Some out, None), w)"
    and "PublicIpv4Pools out = [p]"
    and "sint (Int64Value (TotalAvailableAddressCount p)) < 1"
    and "PublicIpv4PoolFallBackOrder v = Some PublicIpv4PoolFallbackOrderNone"
  shows "allocateAddress P s role st =
           (Err (Errorf ''failed to allocate Elastic IP from PublicIpv4 Pool'' []),
            \<lparr>calls = calls st @ [CallDescribePublicIpv4Pools [Some pool]], world = w\<rparr>)"
  using assms
  by (simp add: allocateAddress_def setByoPublicIpv4_def publicIpv4PoolHasFreeIPs_def call_defs)

theorem allocate_pool_exhausted_fallback_none_witness:
  "VPC (fakeService (Some ''pool-1'') (Some PublicIpv4PoolFallbackOrderNone))
     = Some \<lparr>vpc_PublicIpv4Pool = Some ''pool-1'',
             PublicIpv4PoolFallBackOrder = Some PublicIpv4PoolFallbackOrderNone\<rparr>
   \<and> DescribePublicIpv4Pools
        (EC2Client (fakeService (Some ''pool-1'') (Some PublicIpv4PoolFallbackOrderNone)))
        [Some ''pool-1''] (world (fakeStart [] 0 [] []))
       = ((Some \<lparr>PublicIpv4Pools = [\<lparr>TotalAvailableAddressCount = Some 0\<rparr>]\<rparr>, None),
          fakeWorld [] 0 [] [])
   \<and> sint (Int64Value (TotalAvailableAddressCount \<lparr>TotalAvailableAddressCount = Some 0\<rparr>)) < 1
   \<and> allocateAddress fakeEnv
        (fakeService (Some ''pool-1'') (Some PublicIpv4PoolFallbackOrderNone)) ''worker''
        (fakeStart [] 0 [] [])
       = (Err (Errorf ''failed to allocate Elastic IP from PublicIpv4 Pool'' []),
          \<lparr>calls = [CallDescribePublicIpv4Pools [Some ''pool-1'']],
           world = fakeWorld [] 0 [] []\<rparr>)"
proof -
  let ?s = "fakeService (Some ''pool-1'') (Some PublicIpv4PoolFallbackOrderNone)"
  let ?v = "\<lparr>vpc_PublicIpv4Pool = Some ''pool-1'',
             PublicIpv4PoolFallBackOrder = Some PublicIpv4PoolFallbackOrderNone\<rparr>"
  let ?p = "\<lparr>TotalAvailableAddressCount = Some (0 :: 64 word)\<rparr>"
  have h1: "VPC ?s = Some ?v" by (simp add: VPC_def fakeService_def)
  have h2: "vpc_PublicIpv4Pool ?v = Some ''pool-1''" by simp
  have h3: "DescribePublicIpv4Pools (EC2Client ?s) [Some ''pool-1''] (world (fakeStart [] 0 [] []))
              = ((Some \<lparr>PublicIpv4Pools = [?p]\<rparr>, None), fakeWorld [] 0 [] [])"
    by (simp add: fake_defs)
  have h4: "PublicIpv4Pools \<lparr>PublicIpv4Pools = [?p]\<rparr> = [?p]" by simp
  have h5: "sint (Int64Value (TotalAvailableAddressCount ?p)) < 1" by (simp add: Int64Value_def)
  have h6: "PublicIpv4PoolFallBackOrder ?v = Some PublicIpv4PoolFallbackOrderNone" by simp
  show ?thesis
    using allocate_pool_exhausted_fallback_none [OF h1 h2 h3 h4 h5 h6, of fakeEnv "''worker''"] h1 h3 h5
    by (simp add: fakeStart_def)
qed

text \<open>
  C1. The same exhausted pool with the fallback allowed (no fallback order, or the order
  \<^verbatim>\<open>amazon-pool\<close>): \<^verbatim>\<open>publicIpv4PoolHasFreeIPs\<close> reports the exhausted pool
  as an error, \<^verbatim>\<open>setByoPublicIpv4\<close> returns on that error before it looks at the
  fallback order, and the allocation fails without an allocation request, although the
  comment of \<^verbatim>\<open>setByoPublicIpv4\<close> promises the fallback to the provider's pool.
\<close>

theorem allocate_pool_exhausted_fallback_allowed_fails:
  "allocateAddress fakeEnv (fakeService (Some ''pool-1'') None) ''worker'' (fakeStart [] 0 [] [])
     = (Err (Errorf ''failed to allocate Elastic IP from PublicIpv4 Pool'' []),
        \<lparr>calls = [CallDescribePublicIpv4Pools [Some ''pool-1'']], world = fakeWorld [] 0 [] []\<rparr>)
   \<and> allocateAddress fakeEnv
        (fakeService (Some ''pool-1'') (Some PublicIpv4PoolFallbackOrderAmazonPool)) ''worker''
        (fakeStart [] 0 [] [])
     = (Err (Errorf ''failed to allocate Elastic IP from PublicIpv4 Pool'' []),
        \<lparr>calls = [CallDescribePublicIpv4Pools [Some ''pool-1'']], world = fakeWorld [] 0 [] []\<rparr>)"
  by (simp add: allocateAddress_def setByoPublicIpv4_def publicIpv4PoolHasFreeIPs_def VPC_def
      call_defs fake_defs Int64Value_def)

subsection \<open>Release\<close>

text \<open>
  C3. An address with an association, for which the provider answers the disassociate
  request with "association not found": \<^verbatim>\<open>releaseAddress\<close> sends that request
  outside the waiter and fails on any error of it, so the release fails and no release
  request is sent, although \<^verbatim>\<open>disassociateAddress\<close> takes the same answer as
  success.
\<close>

theorem release_fails_on_association_not_found:
  "releaseAddress fakeEnv (fakeService None None) (addr ''eipalloc-1'' (Some ''eipassoc-1''))
     (fakeStart [] 0 [Some (AwsError AssociationIDNotFound ''not found'')] [])
   = (Err (Errorf
        ''failed to disassociate Elastic IP %q with allocation ID %q: Still associated with association ID %q''
        [ArgString ''192.0.2.1'', ArgString ''eipalloc-1'', ArgString ''eipassoc-1'']),
      \<lparr>calls = [CallDisassociateAddress (Some ''eipassoc-1'')], world = fakeWorld [] 0 [] []\<rparr>)"
  by (simp add: releaseAddress_def call_defs fake_defs)

subsection \<open>Bulk release\<close>

text \<open>
  C10. For every filter, when the listing succeeds with no output or with no address,
  the bulk release succeeds and the listing is the only request sent; this holds for
  \<^verbatim>\<open>ReleaseAddresses\<close> and \<^verbatim>\<open>ReleaseAddressByRole\<close> with their filters.
\<close>

theorem bulk_release_empty_listing:
  assumes "DescribeAddressesWithContext (EC2Client s) filters (world st) = ((out, None), w)"
    and "out = None \<or> out = Some \<lparr>Addresses = []\<rparr>"
  shows "releaseAddresses P s filters st =
           (Ok (), \<lparr>calls = calls st @ [CallDescribeAddresses filters], world = w\<rparr>)
       \<and> (filters = [Cluster (Name s)] \<longrightarrow>
            ReleaseAddresses P s st =
              (Ok (), \<lparr>calls = calls st @ [CallDescribeAddresses filters], world = w\<rparr>))
       \<and> (filters = [Cluster (Name s), ProviderRole role] \<longrightarrow>
            ReleaseAddressByRole P s role st =
              (Ok (), \<lparr>calls = calls st @ [CallDescribeAddresses filters], world = w\<rparr>))"
proof -
  have main: "releaseAddresses P s filters st =
           (Ok (), \<lparr>calls = calls st @ [CallDescribeAddresses filters], world = w\<rparr>)"
    using assms by (auto simp add: releaseAddresses_def callDescribeAddresses_def)
  then show ?thesis
    by (auto simp add: ReleaseAddresses_def ReleaseAddressByRole_def Let_def)
qed

theorem bulk_release_empty_listing_witness:
  "DescribeAddressesWithContext (EC2Client (fakeService None None))
      [Cluster ''c1'', ProviderRole ''worker''] (world (fakeStart [] 0 [] []))
     = ((Some \<lparr>Addresses = []\<rparr>, None), fakeWorld [] 0 [] [])
   \<and> ReleaseAddressByRole fakeEnv (fakeService None None) ''worker'' (fakeStart [] 0 [] [])
     = (Ok (), \<lparr>calls = [CallDescribeAddresses [Cluster ''c1'', ProviderRole ''worker'']],
               world = fakeWorld [] 0 [] []\<rparr>)
   \<and> DescribeAddressesWithContext (EC2Client (fakeService None None))
      [Cluster ''c1''] (world \<lparr>calls = [], world = (fakeWorld [] 0 [] [])\<lparr>f_addresses := (None, None)\<rparr>\<rparr>)
     = ((None, None), (fakeWorld [] 0 [] [])\<lparr>f_addresses := (None, None)\<rparr>)
   \<and> ReleaseAddresses fakeEnv (fakeService None None)
        \<lparr>calls = [], world = (fakeWorld [] 0 [] [])\<lparr>f_addresses := (None, None)\<rparr>\<rparr>
     = (Ok (), \<lparr>calls = [CallDescribeAddresses [Cluster ''c1'']],
               world = (fakeWorld [] 0 [] [])\<lparr>f_addresses := (None, None)\<rparr>\<rparr>)"
proof -
  let ?s = "fakeService None None"
  let ?wb = "(fakeWorld [] 0 [] [])\<lparr>f_addresses := (None, None)\<rparr>"
  have h1: "DescribeAddressesWithContext (EC2Client ?s)
      [Cluster ''c1'', ProviderRole ''worker''] (world (fakeStart [] 0 [] []))
     = ((Some \<lparr>Addresses = []\<rparr>, None), fakeWorld [] 0 [] [])"
    by (simp add: fake_defs)
  have h2: "DescribeAddressesWithContext (EC2Client ?s) [Cluster ''c1'']
      (world \<lparr>calls = [], world = ?wb\<rparr>) = ((None, None), ?wb)"
    by (simp add: fake_defs)
  have n: "Name ?s = ''c1''" by (simp add: Name_def fakeService_def)
  show ?thesis
    using bulk_release_empty_listing [OF h1, of fakeEnv "''worker''"] bulk_release_empty_listing [OF h2, of fakeEnv "''worker''"] h1 h2 n
    by (simp add: fakeStart_def)
qed

lemma releaseLoop_chain:
  "length sts = Suc (length ips) \<Longrightarrow>
   \<forall>i<length ips. releaseAddress P s (ips ! i) (sts ! i) = (Ok (), sts ! Suc i) \<Longrightarrow>
   releaseLoop P s (ips @ rest) (hd sts) = releaseLoop P s rest (last sts)"
proof (induction ips arbitrary: sts)
  case Nil
  then show ?case by (cases sts) auto
next
  case (Cons ip ips)
  then obtain st0 sts' where sts: "sts = st0 # sts'" by (cases sts) auto
  with Cons.prems have len: "length sts' = Suc (length ips)" by simp
  from Cons.prems(2) sts have first: "releaseAddress P s ip st0 = (Ok (), hd sts')"
    using len by (cases sts') (auto dest: spec [of _ 0])
  have step: "\<forall>i<length ips. releaseAddress P s (ips ! i) (sts' ! i) = (Ok (), sts' ! Suc i)"
  proof (intro allI impI)
    fix i assume "i < length ips"
    then have "Suc i < length (ip # ips)" by simp
    with Cons.prems(2) have "releaseAddress P s ((ip # ips) ! Suc i) (sts ! Suc i) = (Ok (), sts ! Suc (Suc i))"
      by blast
    then show "releaseAddress P s (ips ! i) (sts' ! i) = (Ok (), sts' ! Suc i)"
      by (simp add: sts)
  qed
  from Cons.IH [OF len step] first len show ?case
    by (cases sts') (auto simp: sts)
qed

text \<open>
  C6. The bulk release releases the listed addresses one after the other in the order of
  the listing, each from the state the one before left, and stops at the first error:
  when the addresses before \<open>ip\<close> are released with success and the release of
  \<open>ip\<close> fails, the call returns that error in the state that release left, so that
  nothing is attempted for the addresses after \<open>ip\<close>.
\<close>

theorem bulk_release_fail_fast:
  assumes "DescribeAddressesWithContext (EC2Client s) filters (world st) = ((Some out, None), w)"
    and "Addresses out = before @ ip # after"
    and "length sts = Suc (length before)"
    and "hd sts = \<lparr>calls = calls st @ [CallDescribeAddresses filters], world = w\<rparr>"
    and "\<forall>i<length before. releaseAddress P s (before ! i) (sts ! i) = (Ok (), sts ! Suc i)"
    and "releaseAddress P s ip (last sts) = (Err err, st')"
  shows "releaseAddresses P s filters st = (Err err, st')"
proof -
  have "releaseAddresses P s filters st = releaseLoop P s (before @ ip # after) (hd sts)"
    using assms(1,2,4) by (simp add: releaseAddresses_def callDescribeAddresses_def)
  also have "\<dots> = releaseLoop P s (ip # after) (last sts)"
    by (rule releaseLoop_chain [OF assms(3) assms(5)])
  also have "\<dots> = (Err err, st')"
    using assms(6) by simp
  finally show ?thesis .
qed

theorem bulk_release_fail_fast_witness:
  "releaseAddress fakeEnv (fakeService None None) (addr ''a1'' None)
      \<lparr>calls = [CallDescribeAddresses [Cluster ''c1'']],
       world = fakeWorld [addr ''a1'' None, addr ''a2'' None, addr ''a3'' None] 0 []
                 [None, Some (AwsError (OtherCode ''Boom'') ''boom'')]\<rparr>
     = (Ok (),
        \<lparr>calls = [CallDescribeAddresses [Cluster ''c1''], CallReleaseAddress (Some ''a1'')],
         world = fakeWorld [addr ''a1'' None, addr ''a2'' None, addr ''a3'' None] 0 []
                   [Some (AwsError (OtherCode ''Boom'') ''boom'')]\<rparr>)
   \<and> releaseAddresses fakeEnv (fakeService None None) [Cluster ''c1'']
        (fakeStart [addr ''a1'' None, addr ''a2'' None, addr ''a3'' None] 0 []
           [None, Some (AwsError (OtherCode ''Boom'') ''boom'')])
     = (Err (Wrapf (AwsError (OtherCode ''Boom'') ''boom'') ''failed to release ElasticIP %q''
               [ArgString ''a2'']),
        \<lparr>calls = [CallDescribeAddresses [Cluster ''c1''], CallReleaseAddress (Some ''a1''),
                  CallReleaseAddress (Some ''a2'')],
         world = fakeWorld [addr ''a1'' None, addr ''a2'' None, addr ''a3'' None] 0 [] []\<rparr>)"
proof -
  let ?s = "fakeService None None"
  let ?as = "[addr ''a1'' None, addr ''a2'' None, addr ''a3'' None]"
  let ?boom = "AwsError (OtherCode ''Boom'') ''boom''"
  let ?st = "fakeStart ?as 0 [] [None, Some ?boom]"
  let ?sta = "\<lparr>calls = [CallDescribeAddresses [Cluster ''c1'']],
               world = fakeWorld ?as 0 [] [None, Some ?boom]\<rparr>"
  let ?stb = "\<lparr>calls = [CallDescribeAddresses [Cluster ''c1''], CallReleaseAddress (Some ''a1'')],
               world = fakeWorld ?as 0 [] [Some ?boom]\<rparr>"
  let ?stc = "\<lparr>calls = [CallDescribeAddresses [Cluster ''c1''], CallReleaseAddress (Some ''a1''),
                  CallReleaseAddress (Some ''a2'')],
               world = fakeWorld ?as 0 [] []\<rparr>"
  have h1: "DescribeAddressesWithContext (EC2Client ?s) [Cluster ''c1''] (world ?st)
              = ((Some \<lparr>Addresses = ?as\<rparr>, None), fakeWorld ?as 0 [] [None, Some ?boom])"
    by (simp add: fake_defs)
  have h2: "Addresses \<lparr>Addresses = ?as\<rparr> = [addr ''a1'' None] @ addr ''a2'' None # [addr ''a3'' None]"
    by simp
  have h3: "length [?sta, ?stb] = Suc (length [addr ''a1'' None])" by simp
  have h4: "hd [?sta, ?stb] = \<lparr>calls = calls ?st @ [CallDescribeAddresses [Cluster ''c1'']],
               world = fakeWorld ?as 0 [] [None, Some ?boom]\<rparr>"
    by (simp add: fakeStart_def)
  have r1: "releaseAddress fakeEnv ?s (addr ''a1'' None) ?sta = (Ok (), ?stb)"
    by (simp add: run_defs)
  have h5: "\<forall>i<length [addr ''a1'' None].
              releaseAddress fakeEnv ?s ([addr ''a1'' None] ! i) ([?sta, ?stb] ! i)
                = (Ok (), [?sta, ?stb] ! Suc i)"
    using r1 by simp
  have h6: "releaseAddress fakeEnv ?s (addr ''a2'' None) (last [?sta, ?stb])
              = (Err (Wrapf ?boom ''failed to release ElasticIP %q'' [ArgString ''a2'']), ?stc)"
    by (simp add: run_defs)
  show ?thesis
    using bulk_release_fail_fast [OF h1 h2 h3 h4 h5 h6] r1 by simp
qed

subsection \<open>Get or allocate\<close>

declare allocLoop.simps [simp del]

lemma minted_append: "minted (xs @ ys) = minted xs @ minted ys"
  by (induction xs rule: minted.induct) auto

lemma reuseLoop_eq:
  "reuseLoop addrs eips =
     eips @ map (\<lambda>a. StringValue (AllocationId a)) (filter (\<lambda>a. AssociationId a = None) addrs)"
  by (induction addrs arbitrary: eips) auto

lemma allocateAddress_Ok:
  assumes "allocateAddress P s role st = (Ok ip, st')"
  shows "\<exists>cs. calls st' = calls st @ cs \<and> length (filter isAllocate cs) = 1 \<and> minted cs = [ip]"
  using assms
  by (auto simp add: allocateAddress_def setByoPublicIpv4_def publicIpv4PoolHasFreeIPs_def
      call_defs Let_def
      split: option.splits result.splits prod.splits list.splits if_splits)

lemma allocLoop_Ok:
  "allocLoop P s num role eips st = (Ok eips', st') \<Longrightarrow>
     \<exists>cs. calls st' = calls st @ cs \<and> eips' = eips @ minted cs
          \<and> length (filter isAllocate cs) = length (minted cs)
          \<and> int (length eips') = max num (int (length eips))"
proof (induction P s num role eips st rule: allocLoop.induct)
  case (1 P s num role eips st)
  show ?case
  proof (cases "int (length eips) < num")
    case False
    with "1.prems" show ?thesis by (simp add: allocLoop.simps)
  next
    case True
    obtain r st1 where a: "allocateAddress P s role st = (r, st1)" by (cases "allocateAddress P s role st")
    with True "1.prems" obtain ip where r: "r = Ok ip"
      and rec: "allocLoop P s num role (eips @ [ip]) st1 = (Ok eips', st')"
      by (subst (asm) allocLoop.simps) (auto split: result.splits)
    from allocateAddress_Ok [OF a [unfolded r]] obtain cs1 where
      c1: "calls st1 = calls st @ cs1" "length (filter isAllocate cs1) = 1" "minted cs1 = [ip]"
      by blast
    from "1.IH" [OF True a [symmetric] r rec] obtain cs2 where
      c2: "calls st' = calls st1 @ cs2" "eips' = (eips @ [ip]) @ minted cs2"
        "length (filter isAllocate cs2) = length (minted cs2)"
        "int (length eips') = max num (int (length (eips @ [ip])))"
      by blast
    have "calls st' = calls st @ (cs1 @ cs2)" using c1 c2 by simp
    moreover have "eips' = eips @ minted (cs1 @ cs2)" using c1 c2 by (simp add: minted_append)
    moreover have "length (filter isAllocate (cs1 @ cs2)) = length (minted (cs1 @ cs2))"
      using c1 c2 by (simp add: minted_append)
    moreover have "int (length eips') = max num (int (length eips))" using c2(4) True by simp
    ultimately show ?thesis by blast
  qed
qed

lemmas alloc_run_defs = GetOrAllocateAddresses_def describeAddresses_def allocLoop.simps
  allocateAddress_def setByoPublicIpv4_def publicIpv4PoolHasFreeIPs_def getEIPTagParams_def
  VPC_def Name_def AdditionalTags_def StringValue_def Int64Value_def ResourceTypeElasticIp_def
  Equal_def newCalls_def call_defs fake_defs Let_def

lemma GetOrAllocateAddresses_Ok:
  assumes d: "describeAddresses s role st = ((Some out, None), st1)"
    and g: "GetOrAllocateAddresses P s num role st = (Ok eips, st')"
  shows "eips = map (\<lambda>a. StringValue (AllocationId a))
                  (filter (\<lambda>a. AssociationId a = None) (Addresses out))
                @ minted (newCalls st1 st')
       \<and> int (length eips) =
           max num (int (length (filter (\<lambda>a. AssociationId a = None) (Addresses out))))
       \<and> length (filter isAllocate (newCalls st1 st')) = length (minted (newCalls st1 st'))"
proof -
  let ?reused = "map (\<lambda>a. StringValue (AllocationId a))
                  (filter (\<lambda>a. AssociationId a = None) (Addresses out))"
  from d g have "allocLoop P s num role (reuseLoop (Addresses out) []) st1 = (Ok eips, st')"
    by (simp add: GetOrAllocateAddresses_def)
  then have loop: "allocLoop P s num role ?reused st1 = (Ok eips, st')"
    by (simp add: reuseLoop_eq)
  from allocLoop_Ok [OF loop] obtain cs where
    cs: "calls st' = calls st1 @ cs" "eips = ?reused @ minted cs"
      "length (filter isAllocate cs) = length (minted cs)"
      "int (length eips) = max num (int (length ?reused))"
    by blast
  from cs(1) have "newCalls st1 st' = cs" by (simp add: newCalls_def)
  with cs show ?thesis by simp
qed

text \<open>
  C2, as the code has it. When the listing succeeds and the call succeeds, the result is
  the identities of all the addresses of the listing that have no association, in the
  order of the listing, followed by the identities that the provider minted in answer to
  the allocation requests of the call, one per request. Its length is the larger of
  \<open>num\<close> and the number of unassociated addresses: exactly \<open>num\<close> when at
  most \<open>num\<close> addresses were free, more when more were.
\<close>

theorem get_or_allocate_reuses_then_mints:
  assumes "describeAddresses s role st = ((Some out, None), st1)"
    and "GetOrAllocateAddresses P s num role st = (Ok eips, st')"
  shows "eips = map (\<lambda>a. StringValue (AllocationId a))
                  (filter (\<lambda>a. AssociationId a = None) (Addresses out))
                @ minted (newCalls st1 st')
       \<and> int (length eips) =
           max num (int (length (filter (\<lambda>a. AssociationId a = None) (Addresses out))))
       \<and> length (filter isAllocate (newCalls st1 st')) = length (minted (newCalls st1 st'))"
  using assms by (rule GetOrAllocateAddresses_Ok)

theorem get_or_allocate_reuses_then_mints_witness:
  "describeAddresses (fakeService None None) ''worker''
      (fakeStart [addr ''a1'' None, addr ''a2'' (Some ''as2'')] 0 [] [])
     = ((Some \<lparr>Addresses = [addr ''a1'' None, addr ''a2'' (Some ''as2'')]\<rparr>, None),
        \<lparr>calls = [CallDescribeAddresses [Cluster ''c1'', ProviderRole ''worker'']],
         world = fakeWorld [addr ''a1'' None, addr ''a2'' (Some ''as2'')] 0 [] []\<rparr>)
   \<and> fst (GetOrAllocateAddresses fakeEnv (fakeService None None) 2 ''worker''
          (fakeStart [addr ''a1'' None, addr ''a2'' (Some ''as2'')] 0 [] []))
     = Ok [''a1'', ''eipalloc-'']
   \<and> int (length [''a1'', ''eipalloc-'']) = max 2 1"
proof -
  let ?s = "fakeService None None"
  let ?as = "[addr ''a1'' None, addr ''a2'' (Some ''as2'')]"
  let ?st = "fakeStart ?as 0 [] []"
  let ?sta = "\<lparr>calls = [CallDescribeAddresses [Cluster ''c1'', ProviderRole ''worker'']],
         world = fakeWorld ?as 0 [] []\<rparr>"
  obtain stb where g0: "GetOrAllocateAddresses fakeEnv ?s 2 ''worker'' ?st = (Ok [''a1'', ''eipalloc-''], stb)"
    by (simp add: alloc_run_defs)
  have h1: "describeAddresses ?s ''worker'' ?st = ((Some \<lparr>Addresses = ?as\<rparr>, None), ?sta)"
    by (simp add: alloc_run_defs)
  have g1: "fst (GetOrAllocateAddresses fakeEnv ?s 2 ''worker'' ?st) = Ok [''a1'', ''eipalloc-'']"
    using g0 by simp
  have a: "int (length [''a1'', ''eipalloc-'']) = max 2 1" by simp
  from get_or_allocate_reuses_then_mints [OF h1 g0] h1 g1 a show ?thesis by blast
qed

text \<open>
  The claim C2 as stated (exactly \<open>num\<close> identities) fails when more addresses are
  free than are asked for: with two free addresses and \<open>num = 1\<close> both are returned.
\<close>

theorem get_or_allocate_returns_more_than_count:
  "fst (GetOrAllocateAddresses fakeEnv (fakeService None None) 1 ''worker''
          (fakeStart [addr ''a1'' None, addr ''a2'' None] 0 [] []))
     = Ok [''a1'', ''a2'']
   \<and> int (length [''a1'', ''a2'']) \<noteq> 1"
  by (simp add: alloc_run_defs)

text \<open>
  C4. When the listing has \<open>k < num\<close> addresses without an association and the call
  succeeds, exactly \<open>num - k\<close> allocation requests are sent, the provider minted
  \<open>num - k\<close> identities in answer, and the result is the \<open>k\<close> identities of the
  listing followed by the minted ones.
\<close>

theorem get_or_allocate_tops_up:
  assumes "describeAddresses s role st = ((Some out, None), st1)"
    and "int (length (filter (\<lambda>a. AssociationId a = None) (Addresses out))) < num"
    and "GetOrAllocateAddresses P s num role st = (Ok eips, st')"
  shows "length (filter isAllocate (newCalls st1 st'))
           = nat (num - int (length (filter (\<lambda>a. AssociationId a = None) (Addresses out))))
       \<and> length (minted (newCalls st1 st'))
           = nat (num - int (length (filter (\<lambda>a. AssociationId a = None) (Addresses out))))
       \<and> eips = map (\<lambda>a. StringValue (AllocationId a))
                  (filter (\<lambda>a. AssociationId a = None) (Addresses out))
                @ minted (newCalls st1 st')"
proof -
  from GetOrAllocateAddresses_Ok [OF assms(1) assms(3)]
  have a: "eips = map (\<lambda>a. StringValue (AllocationId a))
                  (filter (\<lambda>a. AssociationId a = None) (Addresses out))
                @ minted (newCalls st1 st')"
    and b: "int (length eips) =
           max num (int (length (filter (\<lambda>a. AssociationId a = None) (Addresses out))))"
    and c: "length (filter isAllocate (newCalls st1 st')) = length (minted (newCalls st1 st'))"
    by blast+
  from a have "length eips = length (filter (\<lambda>a. AssociationId a = None) (Addresses out))
                 + length (minted (newCalls st1 st'))" 
    by (metis length_append length_map)
  with b assms(2) have "length (minted (newCalls st1 st'))
           = nat (num - int (length (filter (\<lambda>a. AssociationId a = None) (Addresses out))))"
    by linarith
  with a c show ?thesis by simp
qed

theorem get_or_allocate_tops_up_witness:
  "describeAddresses (fakeService None None) ''worker''
      (fakeStart [addr ''a1'' None, addr ''a2'' (Some ''as2'')] 0 [] [])
     = ((Some \<lparr>Addresses = [addr ''a1'' None, addr ''a2'' (Some ''as2'')]\<rparr>, None),
        \<lparr>calls = [CallDescribeAddresses [Cluster ''c1'', ProviderRole ''worker'']],
         world = fakeWorld [addr ''a1'' None, addr ''a2'' (Some ''as2'')] 0 [] []\<rparr>)
   \<and> fst (GetOrAllocateAddresses fakeEnv (fakeService None None) 3 ''worker''
          (fakeStart [addr ''a1'' None, addr ''a2'' (Some ''as2'')] 0 [] []))
     = Ok [''a1'', ''eipalloc-'', ''eipalloc-i'']
   \<and> length (filter isAllocate
        (newCalls \<lparr>calls = [CallDescribeAddresses [Cluster ''c1'', ProviderRole ''worker'']],
                   world = fakeWorld [addr ''a1'' None, addr ''a2'' (Some ''as2'')] 0 [] []\<rparr>
          (snd (GetOrAllocateAddresses fakeEnv (fakeService None None) 3 ''worker''
                 (fakeStart [addr ''a1'' None, addr ''a2'' (Some ''as2'')] 0 [] []))))) = 2"
proof -
  let ?s = "fakeService None None"
  let ?as = "[addr ''a1'' None, addr ''a2'' (Some ''as2'')]"
  let ?st = "fakeStart ?as 0 [] []"
  let ?sta = "\<lparr>calls = [CallDescribeAddresses [Cluster ''c1'', ProviderRole ''worker'']],
         world = fakeWorld ?as 0 [] []\<rparr>"
  obtain stb where g0: "GetOrAllocateAddresses fakeEnv ?s 3 ''worker'' ?st
       = (Ok [''a1'', ''eipalloc-'', ''eipalloc-i''], stb)"
    by (simp add: alloc_run_defs)
  have h1: "describeAddresses ?s ''worker'' ?st = ((Some \<lparr>Addresses = ?as\<rparr>, None), ?sta)"
    by (simp add: alloc_run_defs)
  have h2: "int (length (filter (\<lambda>a. AssociationId a = None) (Addresses \<lparr>Addresses = ?as\<rparr>))) < 3"
    by (simp add: addr_def)
  have g1: "fst (GetOrAllocateAddresses fakeEnv ?s 3 ''worker'' ?st)
              = Ok [''a1'', ''eipalloc-'', ''eipalloc-i'']"
    using g0 by simp
  have n: "nat (3 - int (length (filter (\<lambda>a. AssociationId a = None)
              (Addresses \<lparr>Addresses = ?as\<rparr>)))) = 2"
    by (simp add: addr_def)
  from get_or_allocate_tops_up [OF h1 h2 g0] have "length (filter isAllocate (newCalls ?sta stb)) = 2"
    unfolding n by blast
  then have c: "length (filter isAllocate (newCalls ?sta
                  (snd (GetOrAllocateAddresses fakeEnv ?s 3 ''worker'' ?st)))) = 2"
    using g0 by simp
  from h1 g1 c show ?thesis by blast
qed

subsection \<open>The requests of a release\<close>

lemma waitLoop_calls:
  assumes "\<And>st. \<exists>cs. calls (snd (cond st)) = calls st @ cs \<and> set cs \<subseteq> S"
  shows "\<exists>cs. calls (snd (waitLoop n cond retry lst st)) = calls st @ cs \<and> set cs \<subseteq> S"
proof (induction n arbitrary: lst st)
  case 0
  show ?case by (auto split: option.splits)
next
  case (Suc n)
  obtain r st1 where c: "cond st = (r, st1)" by (cases "cond st")
  from assms [of st] c obtain cs1 where cs1: "calls st1 = calls st @ cs1" "set cs1 \<subseteq> S"
    by auto
  have step: "\<exists>cs. calls (snd (waitLoop n cond retry l st1)) = calls st @ cs \<and> set cs \<subseteq> S" for l
  proof -
    from Suc [of l st1] obtain cs2 where
      "calls (snd (waitLoop n cond retry l st1)) = calls st1 @ cs2" "set cs2 \<subseteq> S" by blast
    with cs1 have "calls (snd (waitLoop n cond retry l st1)) = calls st @ (cs1 @ cs2)"
      "set (cs1 @ cs2) \<subseteq> S" by auto
    then show ?thesis by blast
  qed
  have here: "\<exists>cs. calls st1 = calls st @ cs \<and> set cs \<subseteq> S" using cs1 by blast
  show ?case
    using c step here by (auto split: result.splits prod.splits)
qed

lemma disassociateCond_calls:
  "calls (snd (disassociateCond s ip st)) = calls st @ [CallDisassociateAddress (AssociationId ip)]"
  by (auto simp add: disassociateCond_def callDisassociateAddress_def
      split: prod.splits option.splits)

lemma disassociateAddress_calls:
  "\<exists>cs. calls (snd (disassociateAddress P s ip st)) = calls st @ cs
        \<and> set cs \<subseteq> {CallDisassociateAddress (AssociationId ip)}"
proof -
  have "\<exists>cs. calls (snd (WaitForWithRetryable (NewBackoff P) (disassociateCond s ip) [AuthFailure] st))
             = calls st @ cs \<and> set cs \<subseteq> {CallDisassociateAddress (AssociationId ip)}"
    unfolding WaitForWithRetryable_def
    by (rule waitLoop_calls) (simp add: disassociateCond_calls)
  then show ?thesis
    by (auto simp add: disassociateAddress_def split: prod.splits result.splits option.splits)
qed

lemma releaseCond_calls:
  "\<exists>cs. calls (snd (releaseCond P s ip st)) = calls st @ CallReleaseAddress (AllocationId ip) # cs
        \<and> set cs \<subseteq> {CallDisassociateAddress (AssociationId ip)}"
proof -
  obtain r st1 where c: "callReleaseAddress s (AllocationId ip) st = (r, st1)"
    by (cases "callReleaseAddress s (AllocationId ip) st")
  then have st1: "calls st1 = calls st @ [CallReleaseAddress (AllocationId ip)]"
    by (auto simp add: callReleaseAddress_def split: prod.splits)
  from disassociateAddress_calls [of P s ip st1] obtain cs where
    cs: "calls (snd (disassociateAddress P s ip st1)) = calls st1 @ cs"
      "set cs \<subseteq> {CallDisassociateAddress (AssociationId ip)}" by blast
  show ?thesis
    using c st1 cs
    by (auto simp add: releaseCond_def split: prod.splits result.splits option.splits)
qed

lemma releaseAddress_calls:
  "\<exists>cs. calls (snd (releaseAddress P s ip st)) = calls st @ cs
        \<and> set cs \<subseteq> {CallDisassociateAddress (AssociationId ip),
                     CallReleaseAddress (AllocationId ip)}"
proof -
  let ?S = "{CallDisassociateAddress (AssociationId ip), CallReleaseAddress (AllocationId ip)}"
  have w: "\<exists>cs. calls (snd (WaitForWithRetryable (NewBackoff P) (releaseCond P s ip)
                   [AuthFailure, InUseIPAddress] st1)) = calls st1 @ cs \<and> set cs \<subseteq> ?S" for st1
    unfolding WaitForWithRetryable_def
  proof (rule waitLoop_calls)
    fix st2
    from releaseCond_calls [of P s ip st2]
    show "\<exists>cs. calls (snd (releaseCond P s ip st2)) = calls st2 @ cs \<and> set cs \<subseteq> ?S"
      by (metis (no_types, lifting) insert_commute insert_mono list.simps(15))
  qed
  show ?thesis
  proof (cases "AssociationId ip")
    case None
    with w [of st] show ?thesis
      by (auto simp add: releaseAddress_def split: prod.splits result.splits option.splits)
  next
    case (Some a)
    obtain r st1 where c: "callDisassociateAddress s (AssociationId ip) st = (r, st1)"
      by (cases "callDisassociateAddress s (AssociationId ip) st")
    then have st1: "calls st1 = calls st @ [CallDisassociateAddress (AssociationId ip)]"
      by (auto simp add: callDisassociateAddress_def split: prod.splits)
    from w [of st1] obtain cs where
      cs: "calls (snd (WaitForWithRetryable (NewBackoff P) (releaseCond P s ip)
                   [AuthFailure, InUseIPAddress] st1)) = calls st1 @ cs" "set cs \<subseteq> ?S" by blast
    show ?thesis
      using Some c st1 cs
      by (auto simp add: releaseAddress_def split: prod.splits result.splits option.splits)
  qed
qed

lemma releaseLoop_calls:
  "\<exists>cs. calls (snd (releaseLoop P s ips st)) = calls st @ cs
        \<and> set cs \<subseteq> (\<Union>ip\<in>set ips. {CallDisassociateAddress (AssociationId ip),
                                      CallReleaseAddress (AllocationId ip)})"
proof (induction ips arbitrary: st)
  case Nil
  show ?case by simp
next
  case (Cons ip ips)
  obtain r st1 where c: "releaseAddress P s ip st = (r, st1)" by (cases "releaseAddress P s ip st")
  from releaseAddress_calls [of P s ip st] c obtain cs1 where
    cs1: "calls st1 = calls st @ cs1"
      "set cs1 \<subseteq> {CallDisassociateAddress (AssociationId ip), CallReleaseAddress (AllocationId ip)}"
    by auto
  from Cons [of st1] obtain cs2 where
    cs2: "calls (snd (releaseLoop P s ips st1)) = calls st1 @ cs2"
      "set cs2 \<subseteq> (\<Union>ip\<in>set ips. {CallDisassociateAddress (AssociationId ip),
                                      CallReleaseAddress (AllocationId ip)})"
    by blast
  let ?U = "\<Union>ip\<in>set (ip # ips). {CallDisassociateAddress (AssociationId ip),
                                      CallReleaseAddress (AllocationId ip)}"
  have a: "set cs1 \<subseteq> ?U" using cs1(2) by auto
  have b: "set (cs1 @ cs2) \<subseteq> ?U" using cs1(2) cs2(2) by auto
  have c2: "calls (snd (releaseLoop P s ips st1)) = calls st @ (cs1 @ cs2)"
    using cs1(1) cs2(1) by simp
  show ?case
  proof (cases r)
    case (Ok u)
    with c have "releaseLoop P s (ip # ips) st = releaseLoop P s ips st1" by simp
    with c2 b show ?thesis by metis
  next
    case (Err e)
    with c have "snd (releaseLoop P s (ip # ips) st) = st1" by simp
    with cs1(1) a show ?thesis by metis
  next
    case Panic
    with c have "snd (releaseLoop P s (ip # ips) st) = st1" by simp
    with cs1(1) a show ?thesis by metis
  qed
qed

lemma releaseAddresses_calls:
  "\<exists>cs. calls (snd (releaseAddresses P s fs st)) = calls st @ CallDescribeAddresses fs # cs
        \<and> set cs \<subseteq> (\<Union>ip\<in>set (listed s fs st). {CallDisassociateAddress (AssociationId ip),
                                                     CallReleaseAddress (AllocationId ip)})"
proof -
  obtain out err w where d: "DescribeAddressesWithContext (EC2Client s) fs (world st) = ((out, err), w)"
    by (metis surj_pair)
  let ?st1 = "\<lparr>calls = calls st @ [CallDescribeAddresses fs], world = w\<rparr>"
  show ?thesis
  proof (cases "err = None \<and> out \<noteq> None")
    case False
    with d have "calls (snd (releaseAddresses P s fs st)) = calls st @ CallDescribeAddresses fs # []"
      by (auto simp add: releaseAddresses_def callDescribeAddresses_def split: option.splits)
    then show ?thesis by (metis empty_set empty_subsetI)
  next
    case True
    then obtain out' where o: "out = Some out'" "err = None" by auto
    with d have l: "listed s fs st = Addresses out'" by (simp add: listed_def)
    from d o have r: "releaseAddresses P s fs st = releaseLoop P s (Addresses out') ?st1"
      by (simp add: releaseAddresses_def callDescribeAddresses_def)
    from releaseLoop_calls [of P s "Addresses out'" ?st1] obtain cs where
      "calls (snd (releaseLoop P s (Addresses out') ?st1)) = calls ?st1 @ cs"
      "set cs \<subseteq> (\<Union>ip\<in>set (Addresses out'). {CallDisassociateAddress (AssociationId ip),
                                      CallReleaseAddress (AllocationId ip)})"
      by blast
    with r l show ?thesis by simp
  qed
qed

text \<open>
  C9. \<^verbatim>\<open>ReleaseAddressByRole\<close> lists with the cluster filter and the role filter
  for every role, the empty role included, whereas the listing of
  \<^verbatim>\<open>GetOrAllocateAddresses\<close> for the empty role sends the cluster filter alone.
  Every further request of \<^verbatim>\<open>ReleaseAddressByRole\<close> disassociates or releases an
  address that the provider listed for those two filters: with the empty role the call
  touches the addresses listed for the role tag \<^verbatim>\<open>""\<close>, not those of the whole
  cluster.
\<close>

theorem release_by_role_always_filters_by_role:
  "(\<exists>cs. calls (snd (ReleaseAddressByRole P s role st))
           = calls st @ CallDescribeAddresses [Cluster (Name s), ProviderRole role] # cs
         \<and> set cs \<subseteq> (\<Union>ip\<in>set (listed s [Cluster (Name s), ProviderRole role] st).
                         {CallDisassociateAddress (AssociationId ip),
                          CallReleaseAddress (AllocationId ip)}))
   \<and> (\<exists>cs. calls (snd (ReleaseAddressByRole P s [] st))
           = calls st @ CallDescribeAddresses [Cluster (Name s), ProviderRole []] # cs
         \<and> set cs \<subseteq> (\<Union>ip\<in>set (listed s [Cluster (Name s), ProviderRole []] st).
                         {CallDisassociateAddress (AssociationId ip),
                          CallReleaseAddress (AllocationId ip)}))
   \<and> calls (snd (describeAddresses s [] st)) = calls st @ [CallDescribeAddresses [Cluster (Name s)]]"
proof -
  have a: "\<exists>cs. calls (snd (ReleaseAddressByRole P s r st))
           = calls st @ CallDescribeAddresses [Cluster (Name s), ProviderRole r] # cs
         \<and> set cs \<subseteq> (\<Union>ip\<in>set (listed s [Cluster (Name s), ProviderRole r] st).
                         {CallDisassociateAddress (AssociationId ip),
                          CallReleaseAddress (AllocationId ip)})" for r
    using releaseAddresses_calls [of P s "[Cluster (Name s), ProviderRole r]" st]
    by (simp add: ReleaseAddressByRole_def Let_def)
  have b: "calls (snd (describeAddresses s [] st)) = calls st @ [CallDescribeAddresses [Cluster (Name s)]]"
    by (simp add: describeAddresses_def callDescribeAddresses_def Let_def split: prod.splits)
  from a [of role] a [of "[]"] b show ?thesis by blast
qed

theorem release_by_role_always_filters_by_role_witness:
  "calls (snd (ReleaseAddressByRole fakeEnv (fakeService None None) []
                 (fakeStart [addr ''a1'' None] 0 [] [])))
     = [CallDescribeAddresses [Cluster ''c1'', ProviderRole []], CallReleaseAddress (Some ''a1'')]
   \<and> listed (fakeService None None) [Cluster ''c1'', ProviderRole []]
        (fakeStart [addr ''a1'' None] 0 [] []) = [addr ''a1'' None]
   \<and> calls (snd (describeAddresses (fakeService None None) []
                   (fakeStart [addr ''a1'' None] 0 [] [])))
     = [CallDescribeAddresses [Cluster ''c1'']]"
  using release_by_role_always_filters_by_role [of fakeEnv "fakeService None None" "[]" "fakeStart [addr ''a1'' None] 0 [] []"]
  by (simp add: ReleaseAddressByRole_def releaseAddresses_def describeAddresses_def listed_def
      Name_def Let_def run_defs)

subsection \<open>Tags and filters\<close>











end
